theory Spec2Isabelle
  imports Main
begin

section \<open>Data model of \<open>src/main.py\<close>\<close>

text \<open>
  The bot keeps one \<open>CustomPlayer\<close> per voice connection. The fields the class adds
  in \<open>__init__\<close> are \<open>_custom_queue\<close> (an unbounded \<open>asyncio.Queue\<close>), \<open>history\<close>
  (a Python list), \<open>loop_mode\<close> (an int: 0 off, 1 song, 2 queue) and
  \<open>current_message\<close> (the last "now playing" message, or \<open>None\<close>). The handlers also
  read four properties of the base class \<open>wavelink.Player\<close>: \<open>current\<close>, \<open>playing\<close>,
  \<open>paused\<close> and \<open>volume\<close>; they are fields of the same record.

  Every handler is modelled as one atomic step on this record: the interleaving of
  coroutines at an \<open>await\<close> is outside the model.
\<close>

record playable =
  title :: string
  author :: string
  length_ms :: int
  artwork :: string

type_synonym message = nat

record player =
  custom_queue :: "playable list"
  history :: "playable list"
  loop_mode :: int
  current_message :: "message option"
  current :: "playable option"
  playing :: bool
  paused :: bool
  volume :: int

text \<open>
  The text of every reply the handlers send through \<open>interaction.followup.send\<close> or
  \<open>interaction.response.send_message\<close>.
\<close>

datatype reply =
    NotInVoice            \<comment> \<open>"I'm not in a voice channel."\<close>
  | UserNotInVoice        \<comment> \<open>"You're not in a voice channel!"\<close>
  | Joined                \<comment> \<open>"Joined <channel>"\<close>
  | NoPrevious            \<comment> \<open>"No previous song in history."\<close>
  | PlayingPrevious playable  \<comment> \<open>"Playing previous song: **<title>**"\<close>
  | Resumed               \<comment> \<open>"Resumed music!"\<close>
  | NothingToResume       \<comment> \<open>"Music is already playing or no music to resume."\<close>
  | Paused                \<comment> \<open>"Paused music!"\<close>
  | NothingToPause        \<comment> \<open>"No music playing to pause."\<close>
  | NoMoreSongs           \<comment> \<open>"No more songs in the queue to skip to."\<close>
  | Skipped               \<comment> \<open>"Skipped song!"\<close>
  | NothingToSkip         \<comment> \<open>"No music playing to skip."\<close>
  | Stopped               \<comment> \<open>"Disconnected from voice and cleared queue."\<close>
  | QueueEmpty            \<comment> \<open>"The queue is empty."\<close>
  | QueueEmbed "playable list" nat  \<comment> \<open>the first ten lines and the overflow count\<close>
  | NothingToShuffle      \<comment> \<open>"Queue is empty, nothing to shuffle."\<close>
  | Shuffled              \<comment> \<open>"Queue shuffled!"\<close>
  | LoopSet int           \<comment> \<open>"Loop mode set to: **<mode>**"\<close>
  | VolumeSet int         \<comment> \<open>"Volume set to <new_volume // 10>%"\<close>
  | NoTracksFound         \<comment> \<open>"No tracks found for '<query>'"\<close>
  | AddedToQueue playable \<comment> \<open>"Added **<title>** to the queue."\<close>
  | NowPlaying playable   \<comment> \<open>the "Now Playing" embed with the controls\<close>

text \<open>
  What a handler asks of its collaborators, in the order of the calls: the wavelink
  player (\<open>play\<close>, \<open>stop\<close>, \<open>pause\<close>, \<open>set_volume\<close>, \<open>disconnect\<close>), the stored
  message (\<open>edit\<close>), the interaction (\<open>send\<close>), \<open>print\<close> and
  \<open>bot.loop.create_task\<close>.
\<close>

datatype effect =
    Play playable
  | Stop
  | Pause bool
  | SetVolume int
  | Disconnect
  | EditNowPlaying message playable
  | EditDisconnected message
  | PrintError
  | Send reply
  | CreateTask

text \<open>
  \<open>current_message.edit\<close> is the one call the source wraps in \<open>try\<close>: its outcome is
  an input of the model. \<open>Edited\<close> is a normal return, \<open>NotFound\<close> is
  \<open>discord.NotFound\<close>, \<open>EditFailed\<close> is any other exception. Every other awaited
  library call is taken to return.
\<close>

datatype edit_outcome = Edited | NotFound | EditFailed

text \<open>
  How a handler ends: it returns, an exception it does not catch leaves it
  (\<open>Raised\<close>), or it waits for ever in \<open>asyncio.Queue.get\<close> on an empty queue
  (\<open>Blocked\<close>).
\<close>

datatype status = Returned | Raised | Blocked

type_synonym result = "status \<times> effect list \<times> player"

section \<open>The wavelink player\<close>

text \<open>
  Modelled from the spec: \<open>wavelink.Player\<close> is a library class, not part of
  \<open>src/\<close>. The spec's AudioBackend is told to play, pause, stop, set the volume and
  disconnect; \<open>current\<close> is "the track presently loaded in AudioBackend (absent if
  idle/disconnected)". \<open>play\<close> loads the track, which is what the source relies on
  when it reads \<open>self.current\<close> right after \<open>self.play\<close>; \<open>stop\<close> changes nothing at
  once, the player reports the end of the track later as an event.
\<close>

definition wl_play :: "playable \<Rightarrow> player \<Rightarrow> player" where
  "wl_play t s = s\<lparr>current := Some t, playing := True\<rparr>"

definition wl_pause :: "bool \<Rightarrow> player \<Rightarrow> player" where
  "wl_pause b s = s\<lparr>paused := b\<rparr>"

definition wl_set_volume :: "int \<Rightarrow> player \<Rightarrow> player" where
  "wl_set_volume v s = s\<lparr>volume := v\<rparr>"

definition wl_disconnect :: "player \<Rightarrow> player" where
  "wl_disconnect s = s\<lparr>current := None, playing := False\<rparr>"

section \<open>\<open>CustomPlayer\<close>\<close>

text \<open>\<open>__init__\<close>: a fresh player, nothing loaded, wavelink's default volume.\<close>

definition CustomPlayer_init :: player where
  "CustomPlayer_init =
     \<lparr>custom_queue = [], history = [], loop_mode = 0, current_message = None,
      current = None, playing = False, paused = False, volume = 100\<rparr>"

text \<open>\<open>add_to_custom_queue\<close>: \<open>asyncio.Queue.put\<close> appends at the tail.\<close>

definition add_to_custom_queue :: "player \<Rightarrow> playable \<Rightarrow> player" where
  "add_to_custom_queue s t = s\<lparr>custom_queue := custom_queue s @ [t]\<rparr>"

text \<open>
  \<open>update_now_playing_message\<close> (lines 77-102): nothing without a stored message or
  without a current track; otherwise the message is edited, \<open>NotFound\<close> forgets the
  message, any other exception is printed.
\<close>

definition update_now_playing_message :: "player \<Rightarrow> edit_outcome \<Rightarrow> effect list \<times> player" where
  "update_now_playing_message s r =
     (case current_message s of
        None \<Rightarrow> ([], s)
      | Some m \<Rightarrow>
          (case current s of
             None \<Rightarrow> ([], s)
           | Some t \<Rightarrow>
               (case r of
                  Edited \<Rightarrow> ([EditNowPlaying m t], s)
                | NotFound \<Rightarrow> ([EditNowPlaying m t], s\<lparr>current_message := None\<rparr>)
                | EditFailed \<Rightarrow> ([EditNowPlaying m t, PrintError], s))))"

text \<open>
  \<open>disconnect_and_clean_up\<close> (lines 104-114). The three fields are reset first. With
  a stored message the edit is tried; only \<open>discord.NotFound\<close> is caught, so any other
  exception leaves the method before \<open>self.current_message = None\<close> and before
  \<open>self.disconnect()\<close>.
\<close>

definition disconnect_and_clean_up :: "player \<Rightarrow> edit_outcome \<Rightarrow> result" where
  "disconnect_and_clean_up s r =
     (let s1 = s\<lparr>custom_queue := [], history := [], loop_mode := 0\<rparr> in
      case current_message s1 of
        None \<Rightarrow> (Returned, [Disconnect], wl_disconnect s1)
      | Some m \<Rightarrow>
          (case r of
             EditFailed \<Rightarrow> (Raised, [EditDisconnected m], s1)
           | _ \<Rightarrow> (Returned, [EditDisconnected m, Disconnect],
                    wl_disconnect (s1\<lparr>current_message := None\<rparr>))))"

text \<open>
  Lines 58-60, the loop-queue branch: every track of the history is put on the queue,
  oldest first, then the history is cleared.
\<close>

definition requeue_history :: "player \<Rightarrow> player" where
  "requeue_history s =
     s\<lparr>custom_queue := fold (\<lambda>track q. q @ [track]) (history s) (custom_queue s),
       history := []\<rparr>"

text \<open>
  Lines 69-71: \<open>history.append\<close>, then one \<open>history.pop(0)\<close> when the list has grown
  past ten entries.
\<close>

definition history_append :: "playable list \<Rightarrow> playable \<Rightarrow> playable list" where
  "history_append h t = (let h1 = h @ [t] in if length h1 > 10 then tl h1 else h1)"

text \<open>
  Lines 66-74, the tail of \<open>play_next_track_from_custom_queue\<close>: take the head of the
  queue (\<open>get\<close> waits for ever on an empty queue), remember the track that was
  current, play the new one and refresh the message.
\<close>

definition dequeue_and_play :: "player \<Rightarrow> edit_outcome \<Rightarrow> result" where
  "dequeue_and_play s r =
     (case custom_queue s of
        [] \<Rightarrow> (Blocked, [], s)
      | next_track # rest \<Rightarrow>
          (let s1 = s\<lparr>custom_queue := rest\<rparr>;
               s2 = (case current s1 of
                       None \<Rightarrow> s1
                     | Some c \<Rightarrow> s1\<lparr>history := history_append (history s1) c\<rparr>);
               s3 = wl_play next_track s2;
               (es, s4) = update_now_playing_message s3 r
           in (Returned, Play next_track # es, s4)))"

text \<open>\<open>play_next_track_from_custom_queue\<close> (lines 46-74).\<close>

definition play_next_track_from_custom_queue :: "player \<Rightarrow> edit_outcome \<Rightarrow> result" where
  "play_next_track_from_custom_queue s r =
     (if loop_mode s = 1 \<and> current s \<noteq> None then
        (let c = the (current s);
             s1 = wl_play c s;
             (es, s2) = update_now_playing_message s1 r
         in (Returned, Play c # es, s2))
      else if custom_queue s = [] then
        (if loop_mode s = 2 \<and> history s \<noteq> [] then
           dequeue_and_play (requeue_history s) r
         else disconnect_and_clean_up s r)
      else dequeue_and_play s r)"

section \<open>Events and commands\<close>

text \<open>
  A handler finds its player in the payload or in \<open>interaction.guild.voice_client\<close>,
  which may be \<open>None\<close>, and leaves the guild with a player or without one.
\<close>

type_synonym outcome = "status \<times> effect list \<times> player option"

definition with_player :: "result \<Rightarrow> outcome" where
  "with_player res = (case res of (st, es, s) \<Rightarrow> (st, es, Some s))"

text \<open>
  \<open>on_wavelink_track_end\<close> (lines 132-149). The payload carries the player (absent,
  or not a \<open>CustomPlayer\<close>: \<open>None\<close> here) and the reason, which the handler compares
  with the integers 0 (finished) and 1 (stopped). There is no \<open>else\<close> branch.
\<close>

definition on_wavelink_track_end :: "player option \<Rightarrow> int \<Rightarrow> edit_outcome \<Rightarrow> outcome" where
  "on_wavelink_track_end p reason r =
     (case p of
        None \<Rightarrow> (Returned, [], None)
      | Some s \<Rightarrow>
          (if reason = 0 then with_player (play_next_track_from_custom_queue s r)
           else if reason = 1 then
             (if custom_queue s \<noteq> [] then with_player (play_next_track_from_custom_queue s r)
              else with_player (disconnect_and_clean_up s r))
           else (Returned, [], Some s)))"

text \<open>\<open>join\<close> (lines 152-160): \<open>channel.connect(cls=CustomPlayer)\<close> makes the player.\<close>

definition join :: "bool \<Rightarrow> outcome" where
  "join user_in_voice =
     (if \<not> user_in_voice then (Returned, [Send UserNotInVoice], None)
      else (Returned, [Send Joined], Some CustomPlayer_init))"

text \<open>
  The loop \<open>while not q.empty(): temp.put(await q.get())\<close> of the buttons: every item
  of the queue goes to the tail of \<open>temp\<close>, front first.
\<close>

fun move_all :: "'a list \<Rightarrow> 'a list \<Rightarrow> 'a list" where
  "move_all [] temp = temp"
| "move_all (x # q) temp = move_all q (temp @ [x])"

text \<open>
  \<open>previous_button\<close> (lines 167-189). \<open>history.pop()\<close> takes the last entry; a
  current track goes into a new queue first and the old queue is moved behind it.
\<close>

definition previous_button :: "player option \<Rightarrow> edit_outcome \<Rightarrow> outcome" where
  "previous_button vc r =
     (case vc of
        None \<Rightarrow> (Returned, [Send NotInVoice], None)
      | Some s \<Rightarrow>
          (if history s \<noteq> [] then
             (let previous_track = last (history s);
                  s1 = s\<lparr>history := butlast (history s)\<rparr>;
                  s2 = (case current s1 of
                          None \<Rightarrow> s1
                        | Some c \<Rightarrow> s1\<lparr>custom_queue := move_all (custom_queue s1) [c]\<rparr>);
                  s3 = wl_play previous_track s2;
                  (es, s4) = update_now_playing_message s3 r
              in (Returned, Play previous_track # Send (PlayingPrevious previous_track) # es,
                  Some s4))
           else (Returned, [Send NoPrevious], Some s)))"

text \<open>\<open>play_button\<close> (lines 191-199) and \<open>pause_button\<close> (lines 201-209).\<close>

definition play_button :: "player option \<Rightarrow> outcome" where
  "play_button vc =
     (case vc of
        None \<Rightarrow> (Returned, [Send NothingToResume], None)
      | Some s \<Rightarrow>
          (if paused s then (Returned, [Pause False, Send Resumed], Some (wl_pause False s))
           else (Returned, [Send NothingToResume], Some s)))"

definition pause_button :: "player option \<Rightarrow> outcome" where
  "pause_button vc =
     (case vc of
        None \<Rightarrow> (Returned, [Send NothingToPause], None)
      | Some s \<Rightarrow>
          (if playing s then (Returned, [Pause True, Send Paused], Some (wl_pause True s))
           else (Returned, [Send NothingToPause], Some s)))"

text \<open>
  \<open>skip_button\<close> (lines 211-227). The first guard needs all three of: no current
  track, an empty queue, a loop mode other than 2. The second asks the player whether
  it is playing or paused. No branch assigns to a field of the player.
\<close>

definition skip_button :: "player option \<Rightarrow> outcome" where
  "skip_button vc =
     (case vc of
        None \<Rightarrow> (Returned, [Send NotInVoice], None)
      | Some s \<Rightarrow>
          (if current s = None \<and> custom_queue s = [] \<and> \<not> loop_mode s = 2 then
             (Returned, [Send NoMoreSongs], Some s)
           else if playing s \<or> paused s then (Returned, [Stop, Send Skipped], Some s)
           else (Returned, [Send NothingToSkip], Some s)))"

text \<open>
  \<open>stop_button\<close> (lines 229-237): the reply is sent after the clean-up, so not when
  the clean-up raises.
\<close>

definition stop_button :: "player option \<Rightarrow> edit_outcome \<Rightarrow> outcome" where
  "stop_button vc r =
     (case vc of
        None \<Rightarrow> (Returned, [Send NotInVoice], None)
      | Some s \<Rightarrow>
          (case disconnect_and_clean_up s r of
             (Returned, es, s') \<Rightarrow> (Returned, es @ [Send Stopped], Some s')
           | (st, es, s') \<Rightarrow> (st, es, Some s')))"

text \<open>
  \<open>queue_button\<close> (lines 239-271): the queue is emptied into \<open>temp_queue_items\<close> and
  put back item by item; the reply shows ten lines and counts the rest.
\<close>

definition queue_button :: "player option \<Rightarrow> outcome" where
  "queue_button vc =
     (case vc of
        None \<Rightarrow> (Returned, [Send QueueEmpty], None)
      | Some s \<Rightarrow>
          (if current s = None \<and> custom_queue s = [] then (Returned, [Send QueueEmpty], Some s)
           else
             (let now = (case current s of None \<Rightarrow> [] | Some c \<Rightarrow> [c]);
                  temp_queue_items = move_all (custom_queue s) [];
                  queue_list = now @ temp_queue_items;
                  s1 = s\<lparr>custom_queue := fold (\<lambda>item q. q @ [item]) temp_queue_items []\<rparr>
              in if queue_list = [] then (Returned, [Send QueueEmpty], Some s1)
                 else (Returned,
                       [Send (QueueEmbed (take 10 queue_list) (length queue_list - 10))],
                       Some s1))))"

text \<open>
  \<open>shuffle_button\<close> (lines 274-295). \<open>random.shuffle\<close> is the parameter \<open>shuffle\<close>:
  the order it happens to choose for the items it is given.
\<close>

definition shuffle_button :: "player option \<Rightarrow> (playable list \<Rightarrow> playable list) \<Rightarrow> outcome" where
  "shuffle_button vc shuffle =
     (case vc of
        None \<Rightarrow> (Returned, [Send NotInVoice], None)
      | Some s \<Rightarrow>
          (if custom_queue s = [] then (Returned, [Send NothingToShuffle], Some s)
           else
             (let queue_items = shuffle (move_all (custom_queue s) []);
                  s1 = s\<lparr>custom_queue := fold (\<lambda>item q. q @ [item]) queue_items []\<rparr>
              in (Returned, [Send Shuffled], Some s1))))"

text \<open>\<open>loop_button\<close> (lines 297-307): \<open>(loop_mode + 1) % 3\<close>.\<close>

definition loop_button :: "player option \<Rightarrow> outcome" where
  "loop_button vc =
     (case vc of
        None \<Rightarrow> (Returned, [Send NotInVoice], None)
      | Some s \<Rightarrow>
          (let s1 = s\<lparr>loop_mode := (loop_mode s + 1) mod 3\<rparr>
           in (Returned, [Send (LoopSet (loop_mode s1))], Some s1)))"

text \<open>\<open>vol_up_button\<close> (lines 309-320) and \<open>vol_down_button\<close> (lines 322-333).\<close>

definition vol_up_button :: "player option \<Rightarrow> outcome" where
  "vol_up_button vc =
     (case vc of
        None \<Rightarrow> (Returned, [Send NotInVoice], None)
      | Some s \<Rightarrow>
          (let current_volume = volume s;
               new_volume = min 1000 (current_volume + 100)
           in (Returned, [SetVolume new_volume, Send (VolumeSet (new_volume div 10))],
               Some (wl_set_volume new_volume s))))"

definition vol_down_button :: "player option \<Rightarrow> outcome" where
  "vol_down_button vc =
     (case vc of
        None \<Rightarrow> (Returned, [Send NotInVoice], None)
      | Some s \<Rightarrow>
          (let current_volume = volume s;
               new_volume = max 0 (current_volume - 100)
           in (Returned, [SetVolume new_volume, Send (VolumeSet (new_volume div 10))],
               Some (wl_set_volume new_volume s))))"

text \<open>
  \<open>play\<close> (lines 336-385). Without a player the command connects one when the user is
  in a voice channel. \<open>tracks\<close> is what the search returns and \<open>msg\<close> the message the
  "Now Playing" reply creates. With tracks waiting in the queue the command schedules
  \<open>play_next_track_from_custom_queue\<close> as a task, which runs as a step of its own.
\<close>

definition play :: "player option \<Rightarrow> bool \<Rightarrow> playable list \<Rightarrow> message \<Rightarrow> outcome" where
  "play vc0 user_in_voice tracks msg =
     (if vc0 = None \<and> \<not> user_in_voice then (Returned, [Send UserNotInVoice], None)
      else
        (let vc = (case vc0 of None \<Rightarrow> CustomPlayer_init | Some s \<Rightarrow> s) in
         case tracks of
           [] \<Rightarrow> (Returned, [Send NoTracksFound], Some vc)
         | t # _ \<Rightarrow>
             (if playing vc then
                (Returned, [Send (AddedToQueue t)], Some (add_to_custom_queue vc t))
              else
                (let s1 = wl_play t vc;
                     s2 = s1\<lparr>current_message := Some msg\<rparr>
                 in (Returned,
                     [Play t, Send (NowPlaying t)] @
                       (if custom_queue s2 \<noteq> [] then [CreateTask] else []),
                     Some s2)))))"

section \<open>Reachable players\<close>

text \<open>
  A player is reachable when it is fresh, or comes from a reachable one by an event, a
  command, the scheduled task, or by the wavelink player changing what it reports
  (\<open>current\<close>, \<open>playing\<close>, \<open>paused\<close>, \<open>volume\<close>) on its own. The shuffle may choose
  any order, and an edit may end in any of its three ways.
\<close>

inductive reachable :: "player \<Rightarrow> bool" where
  fresh: "reachable CustomPlayer_init"
| backend: "reachable s \<Longrightarrow> reachable (s\<lparr>current := c, playing := p, paused := q, volume := v\<rparr>)"
| track_end: "reachable s \<Longrightarrow> on_wavelink_track_end (Some s) reason r = (st, es, Some s') \<Longrightarrow> reachable s'"
| task: "reachable s \<Longrightarrow> play_next_track_from_custom_queue s r = (st, es, s') \<Longrightarrow> reachable s'"
| previous: "reachable s \<Longrightarrow> previous_button (Some s) r = (st, es, Some s') \<Longrightarrow> reachable s'"
| resume: "reachable s \<Longrightarrow> play_button (Some s) = (st, es, Some s') \<Longrightarrow> reachable s'"
| pause: "reachable s \<Longrightarrow> pause_button (Some s) = (st, es, Some s') \<Longrightarrow> reachable s'"
| skip: "reachable s \<Longrightarrow> skip_button (Some s) = (st, es, Some s') \<Longrightarrow> reachable s'"
| stop: "reachable s \<Longrightarrow> stop_button (Some s) r = (st, es, Some s') \<Longrightarrow> reachable s'"
| queue: "reachable s \<Longrightarrow> queue_button (Some s) = (st, es, Some s') \<Longrightarrow> reachable s'"
| shuffle: "reachable s \<Longrightarrow> shuffle_button (Some s) f = (st, es, Some s') \<Longrightarrow> reachable s'"
| loop: "reachable s \<Longrightarrow> loop_button (Some s) = (st, es, Some s') \<Longrightarrow> reachable s'"
| vol_up: "reachable s \<Longrightarrow> vol_up_button (Some s) = (st, es, Some s') \<Longrightarrow> reachable s'"
| vol_down: "reachable s \<Longrightarrow> vol_down_button (Some s) = (st, es, Some s') \<Longrightarrow> reachable s'"
| play: "reachable s \<Longrightarrow> play (Some s) u tracks msg = (st, es, Some s') \<Longrightarrow> reachable s'"

section \<open>Reading an outcome\<close>

definition effects :: "outcome \<Rightarrow> effect list" where
  "effects out = fst (snd out)"

definition player_after :: "outcome \<Rightarrow> player option" where
  "player_after out = snd (snd out)"

text \<open>\<open>n\<close> tracks in a row end with reason 0, each message edit succeeding.\<close>

fun finished_events :: "nat \<Rightarrow> player option \<Rightarrow> player option" where
  "finished_events 0 p = p"
| "finished_events (Suc n) p = finished_events n (player_after (on_wavelink_track_end p 0 Edited))"

section \<open>Tracks and players for the examples\<close>

definition track :: "string \<Rightarrow> playable" where
  "track name = \<lparr>title = name, author = ''artist'', length_ms = 180000, artwork = ''''\<rparr>"

definition numbered :: "nat \<Rightarrow> playable" where
  "numbered n = \<lparr>title = ''track'', author = ''artist'', length_ms = int n, artwork = ''''\<rparr>"

text \<open>Loop mode 2, nothing queued, two tracks played before the current one.\<close>

definition looping_session :: player where
  "looping_session =
     \<lparr>custom_queue = [], history = [track ''A'', track ''B''], loop_mode = 2,
      current_message = Some 7, current = Some (track ''C''), playing = True,
      paused = False, volume = 100\<rparr>"

text \<open>Loop mode 1 while a track plays.\<close>

definition song_session :: player where
  "song_session =
     \<lparr>custom_queue = [track ''B''], history = [track ''Z''], loop_mode = 1,
      current_message = Some 7, current = Some (track ''A''), playing = True,
      paused = False, volume = 100\<rparr>"

text \<open>Two tracks in the history, one playing, two waiting.\<close>

definition history_session :: player where
  "history_session =
     \<lparr>custom_queue = [track ''D'', track ''E''], history = [track ''A'', track ''B''], loop_mode = 0,
      current_message = None, current = Some (track ''C''), playing = True,
      paused = False, volume = 100\<rparr>"

text \<open>Track 1 plays and tracks 2 to 16 wait; then the same player fifteen track ends later.\<close>

definition playlist_session :: player where
  "playlist_session =
     \<lparr>custom_queue = map numbered [2..<17], history = [], loop_mode = 0,
      current_message = None, current = Some (numbered 1), playing = True,
      paused = False, volume = 100\<rparr>"

definition playlist_played :: player where
  "playlist_played =
     \<lparr>custom_queue = [], history = map numbered [6..<16], loop_mode = 0,
      current_message = None, current = Some (numbered 16), playing = True,
      paused = False, volume = 100\<rparr>"

text \<open>
  No track is loaded, one waits in the queue, and the player still reports the pause
  that was set before the last track went away.
\<close>

definition stalled_session :: player where
  "stalled_session =
     \<lparr>custom_queue = [track ''B''], history = [], loop_mode = 0, current_message = None,
      current = None, playing = False, paused = True, volume = 100\<rparr>"

text \<open>A player with a stored "now playing" message.\<close>

definition announced_session :: player where
  "announced_session =
     \<lparr>custom_queue = [track ''B''], history = [track ''Z''], loop_mode = 2,
      current_message = Some 7, current = Some (track ''A''), playing = True,
      paused = False, volume = 100\<rparr>"

section \<open>Basic facts\<close>

lemma requeue_fold: "fold (\<lambda>track q. q @ [track]) h q = q @ h"
  by (induction h arbitrary: q) simp_all

lemma move_all_append: "move_all q temp = temp @ q"
  by (induction q arbitrary: temp) simp_all

lemma update_fields:
  "custom_queue (snd (update_now_playing_message s r)) = custom_queue s"
  "history (snd (update_now_playing_message s r)) = history s"
  "loop_mode (snd (update_now_playing_message s r)) = loop_mode s"
  "current (snd (update_now_playing_message s r)) = current s"
  by (simp_all add: update_now_playing_message_def split: option.splits edit_outcome.splits)

lemma update_effects:
  "Play t \<notin> set (fst (update_now_playing_message s r))"
  "Disconnect \<notin> set (fst (update_now_playing_message s r))"
  by (simp_all add: update_now_playing_message_def split: option.splits edit_outcome.splits)

lemma update_history: "update_now_playing_message s r = (es, s') \<Longrightarrow> history s' = history s"
  using update_fields(2) [of s r] by simp

lemma disconnect_fields:
  "custom_queue (snd (snd (disconnect_and_clean_up s r))) = []"
  "history (snd (snd (disconnect_and_clean_up s r))) = []"
  "loop_mode (snd (snd (disconnect_and_clean_up s r))) = 0"
  "Play t \<notin> set (fst (snd (disconnect_and_clean_up s r)))"
  by (simp_all add: disconnect_and_clean_up_def wl_disconnect_def Let_def
      split: option.splits edit_outcome.splits)

lemma disconnect_history: "disconnect_and_clean_up s r = (st, es, s') \<Longrightarrow> history s' = []"
  using disconnect_fields(2) [of s r] by simp

lemma history_append_bound: "length h \<le> 10 \<Longrightarrow> length (history_append h t) \<le> 10"
  by (simp add: history_append_def Let_def)

lemma history_append_last: "history_append h t \<noteq> [] \<and> last (history_append h t) = t"
  by (cases h) (simp_all add: history_append_def Let_def)

text \<open>With a track in the queue, the tail of the transition returns: \<open>get\<close> has an item.\<close>

lemma dequeue_and_play_Cons:
  "custom_queue s = a # rest \<Longrightarrow>
   dequeue_and_play s r =
     (Returned,
      Play a # fst (update_now_playing_message (wl_play a
        (case current s of None \<Rightarrow> s\<lparr>custom_queue := rest\<rparr>
         | Some c \<Rightarrow> s\<lparr>custom_queue := rest, history := history_append (history s) c\<rparr>)) r),
      snd (update_now_playing_message (wl_play a
        (case current s of None \<Rightarrow> s\<lparr>custom_queue := rest\<rparr>
         | Some c \<Rightarrow> s\<lparr>custom_queue := rest, history := history_append (history s) c\<rparr>)) r))"
  by (simp add: dequeue_and_play_def Let_def split: option.splits prod.splits)

text \<open>
  \<open>play_next_track_from_custom_queue\<close> never waits in \<open>get\<close>: it reaches the call
  only with a queue that holds a track, or right after the history was put on it.
\<close>

lemma play_next_never_blocks: "fst (play_next_track_from_custom_queue s r) \<noteq> Blocked"
proof -
  have tail: "\<And>s'. custom_queue s' \<noteq> [] \<Longrightarrow> fst (dequeue_and_play s' r) = Returned"
  proof -
    fix s' :: player
    assume "custom_queue s' \<noteq> []"
    then obtain a rest where "custom_queue s' = a # rest" by (cases "custom_queue s'") auto
    then show "fst (dequeue_and_play s' r) = Returned" by (simp add: dequeue_and_play_Cons)
  qed
  have drained: "history s \<noteq> [] \<Longrightarrow> custom_queue (requeue_history s) \<noteq> []"
    by (simp add: requeue_history_def requeue_fold)
  have leave: "fst (disconnect_and_clean_up s r) \<noteq> Blocked"
    by (simp add: disconnect_and_clean_up_def Let_def split: option.splits edit_outcome.splits)
  show ?thesis
    using tail [of s] tail [of "requeue_history s"] drained leave
    by (simp add: play_next_track_from_custom_queue_def Let_def split: prod.splits)
qed

section \<open>The history never grows past ten entries\<close>

lemma dequeue_and_play_bound:
  assumes "length (history s) \<le> 10" and "dequeue_and_play s r = (st, es, s')"
  shows "length (history s') \<le> 10"
proof (cases "custom_queue s")
  case Nil
  with assms show ?thesis by (simp add: dequeue_and_play_def)
next
  case (Cons a rest)
  from assms(2) have "history s' = (case current s of None \<Rightarrow> history s
      | Some c \<Rightarrow> history_append (history s) c)"
    unfolding dequeue_and_play_Cons [OF Cons]
    by (auto simp: update_fields wl_play_def split: option.splits)
  with assms(1) show ?thesis
    by (simp add: history_append_bound split: option.splits)
qed

lemma play_next_bound:
  assumes "length (history s) \<le> 10" and "play_next_track_from_custom_queue s r = (st, es, s')"
  shows "length (history s') \<le> 10"
proof -
  consider (replay) "loop_mode s = 1 \<and> current s \<noteq> None"
    | (drain) "\<not> (loop_mode s = 1 \<and> current s \<noteq> None)" "custom_queue s = []"
        "loop_mode s = 2 \<and> history s \<noteq> []"
    | (leave) "\<not> (loop_mode s = 1 \<and> current s \<noteq> None)" "custom_queue s = []"
        "\<not> (loop_mode s = 2 \<and> history s \<noteq> [])"
    | (advance) "\<not> (loop_mode s = 1 \<and> current s \<noteq> None)" "custom_queue s \<noteq> []"
    by blast
  then show ?thesis
  proof cases
    case replay
    with assms(2) have "history s' = history s"
      by (auto simp: play_next_track_from_custom_queue_def Let_def wl_play_def
          split: prod.splits dest!: update_history)
    with assms(1) show ?thesis by simp
  next
    case drain
    with assms(2) have "dequeue_and_play (requeue_history s) r = (st, es, s')"
      by (auto simp: play_next_track_from_custom_queue_def split: if_splits)
    moreover have "length (history (requeue_history s)) \<le> 10"
      by (simp add: requeue_history_def)
    ultimately show ?thesis by (rule dequeue_and_play_bound [rotated])
  next
    case leave
    with assms(2) have "disconnect_and_clean_up s r = (st, es, s')"
      by (auto simp: play_next_track_from_custom_queue_def split: if_splits)
    then show ?thesis by (simp add: disconnect_history)
  next
    case advance
    with assms(2) have "dequeue_and_play s r = (st, es, s')"
      by (auto simp: play_next_track_from_custom_queue_def split: if_splits)
    with assms(1) show ?thesis by (rule dequeue_and_play_bound)
  qed
qed

lemma track_end_bound:
  assumes "length (history s) \<le> 10"
    and "on_wavelink_track_end (Some s) reason r = (st, es, Some s')"
  shows "length (history s') \<le> 10"
  using assms
  by (auto simp: on_wavelink_track_end_def with_player_def
      split: if_splits prod.splits dest: play_next_bound disconnect_history)

lemma previous_bound:
  assumes "length (history s) \<le> 10" and "previous_button (Some s) r = (st, es, Some s')"
  shows "length (history s') \<le> 10"
proof (cases "history s = []")
  case True
  with assms show ?thesis by (simp add: previous_button_def)
next
  case False
  with assms(2) have "history s' = butlast (history s)"
    by (auto simp: previous_button_def Let_def wl_play_def
        split: prod.splits option.splits dest!: update_history)
  with assms(1) show ?thesis by simp
qed

lemma stop_bound:
  assumes "stop_button (Some s) r = (st, es, Some s')"
  shows "length (history s') \<le> 10"
  using assms
  by (auto simp: stop_button_def split: prod.splits status.splits dest: disconnect_history)

lemma buttons_keep_history:
  "play_button (Some s) = (st, es, Some s') \<Longrightarrow> history s' = history s"
  "pause_button (Some s) = (st, es, Some s') \<Longrightarrow> history s' = history s"
  "skip_button (Some s) = (st, es, Some s') \<Longrightarrow> history s' = history s"
  "queue_button (Some s) = (st, es, Some s') \<Longrightarrow> history s' = history s"
  "shuffle_button (Some s) f = (st, es, Some s') \<Longrightarrow> history s' = history s"
  "loop_button (Some s) = (st, es, Some s') \<Longrightarrow> history s' = history s"
  "vol_up_button (Some s) = (st, es, Some s') \<Longrightarrow> history s' = history s"
  "vol_down_button (Some s) = (st, es, Some s') \<Longrightarrow> history s' = history s"
  "play (Some s) u tracks msg = (st, es, Some s') \<Longrightarrow> history s' = history s"
  by (auto simp: play_button_def pause_button_def skip_button_def queue_button_def
      shuffle_button_def loop_button_def vol_up_button_def vol_down_button_def play_def
      wl_pause_def wl_set_volume_def wl_play_def add_to_custom_queue_def Let_def
      split: if_splits list.splits)

lemma reachable_history_bound: "reachable s \<Longrightarrow> length (history s) \<le> 10"
proof (induction rule: reachable.induct)
  case fresh
  show ?case by (simp add: CustomPlayer_init_def)
next
  case (backend s c p q v)
  then show ?case by simp
next
  case (track_end s reason r st es s')
  then show ?case by (blast intro: track_end_bound)
next
  case (task s r st es s')
  then show ?case by (blast intro: play_next_bound)
next
  case (previous s r st es s')
  then show ?case by (blast intro: previous_bound)
next
  case (stop s r st es s')
  then show ?case by (blast intro: stop_bound)
qed (simp_all add: buttons_keep_history)

lemma fifteen_appends: "foldl history_append [] (map f [1..<16]) = map f [6..<16]"
  by (simp add: upt_rec history_append_def eval_nat_numeral)

section \<open>A playlist of sixteen tracks\<close>

lemma track_end_keeps_player:
  "\<exists>st es s'. on_wavelink_track_end (Some s) reason r = (st, es, Some s')"
  by (cases "play_next_track_from_custom_queue s r"; cases "disconnect_and_clean_up s r")
     (simp add: on_wavelink_track_end_def with_player_def)

lemma finished_events_reachable:
  "reachable s \<Longrightarrow> finished_events n (Some s) = Some s' \<Longrightarrow> reachable s'"
proof (induction n arbitrary: s)
  case 0
  then show ?case by simp
next
  case (Suc n)
  obtain st es s1 where step: "on_wavelink_track_end (Some s) 0 Edited = (st, es, Some s1)"
    using track_end_keeps_player by blast
  with Suc.prems(1) have "reachable s1" by (rule reachable.track_end)
  moreover from Suc.prems(2) step have "finished_events n (Some s1) = Some s'"
    by (simp add: player_after_def)
  ultimately show ?case by (rule Suc.IH)
qed

lemma enqueue_reachable:
  "reachable s \<Longrightarrow> playing s \<Longrightarrow> reachable (s\<lparr>custom_queue := custom_queue s @ qs\<rparr>)"
proof (induction qs rule: rev_induct)
  case Nil
  then show ?case by simp
next
  case (snoc x xs)
  let ?s = "s\<lparr>custom_queue := custom_queue s @ xs\<rparr>"
  have "reachable ?s" using snoc by simp
  moreover have "play (Some ?s) True [x] 0 =
      (Returned, [Send (AddedToQueue x)], Some (s\<lparr>custom_queue := custom_queue s @ xs @ [x]\<rparr>))"
    using snoc.prems(2) by (simp add: play_def add_to_custom_queue_def)
  ultimately show ?case by (rule reachable.play)
qed

lemma playlist_reachable: "reachable playlist_session"
proof -
  let ?s = "CustomPlayer_init\<lparr>current := Some (numbered 1), playing := True,
      paused := False, volume := 100\<rparr>"
  have "reachable ?s"
    by (rule reachable.backend) (rule reachable.fresh)
  moreover have "playing ?s" by simp
  ultimately have "reachable (?s\<lparr>custom_queue := custom_queue ?s @ map numbered [2..<17]\<rparr>)"
    by (rule enqueue_reachable)
  then show ?thesis by (simp add: CustomPlayer_init_def playlist_session_def)
qed

lemma playlist_fifteen: "finished_events 15 (Some playlist_session) = Some playlist_played"
  by (simp add: eval_nat_numeral upt_rec playlist_session_def playlist_played_def
      player_after_def on_wavelink_track_end_def with_player_def
      play_next_track_from_custom_queue_def dequeue_and_play_def history_append_def
      update_now_playing_message_def wl_play_def Let_def)

text \<open>
  Loop mode 2 on a finished track with an empty queue: the oldest entry of the history
  is played, the rest of the history waits in the queue, and the player is not told to
  disconnect.
\<close>

lemma finished_loop_queue:
  assumes "loop_mode s = 2" and "custom_queue s = []" and "history s = a # rest"
  shows "\<exists>es s'. on_wavelink_track_end (Some s) 0 r = (Returned, Play a # es, Some s') \<and>
           Disconnect \<notin> set es \<and> current s' = Some a \<and> custom_queue s' = rest \<and>
           history s' = (case current s of None \<Rightarrow> [] | Some c \<Rightarrow> [c])"
proof -
  have drained: "custom_queue (requeue_history s) = a # rest" "history (requeue_history s) = []"
    "current (requeue_history s) = current s"
    using assms by (simp_all add: requeue_history_def requeue_fold)
  have step: "on_wavelink_track_end (Some s) 0 r =
      with_player (dequeue_and_play (requeue_history s) r)"
    using assms by (simp add: on_wavelink_track_end_def play_next_track_from_custom_queue_def)
  show ?thesis
    unfolding step dequeue_and_play_Cons [OF drained(1)] with_player_def
    by (cases "current s")
       (simp_all add: drained update_fields update_effects wl_play_def history_append_def)
qed

section \<open>The scenario of the specification\<close>

text \<open>
  \<open>play A\<close> on a fresh player, \<open>play B\<close> while \<open>A\<close> plays, the end of \<open>A\<close>, a skip of
  \<open>B\<close> with nothing queued, and the stopped event that follows it.
\<close>

lemma specification_scenario:
  "play (Some CustomPlayer_init) True [track ''A''] 7 =
     (Returned, [Play (track ''A''), Send (NowPlaying (track ''A''))],
      Some (CustomPlayer_init\<lparr>current_message := Some 7, current := Some (track ''A''),
        playing := True\<rparr>))"
  "play (Some (CustomPlayer_init\<lparr>current_message := Some 7, current := Some (track ''A''),
        playing := True\<rparr>)) True [track ''B''] 8 =
     (Returned, [Send (AddedToQueue (track ''B''))],
      Some (CustomPlayer_init\<lparr>custom_queue := [track ''B''], current_message := Some 7,
        current := Some (track ''A''), playing := True\<rparr>))"
  "on_wavelink_track_end (Some (CustomPlayer_init\<lparr>custom_queue := [track ''B''],
        current_message := Some 7, current := Some (track ''A''), playing := True\<rparr>)) 0 Edited =
     (Returned, [Play (track ''B''), EditNowPlaying 7 (track ''B'')],
      Some (CustomPlayer_init\<lparr>history := [track ''A''], current_message := Some 7,
        current := Some (track ''B''), playing := True\<rparr>))"
  "skip_button (Some (CustomPlayer_init\<lparr>history := [track ''A''], current_message := Some 7,
        current := Some (track ''B''), playing := True\<rparr>)) =
     (Returned, [Stop, Send Skipped],
      Some (CustomPlayer_init\<lparr>history := [track ''A''], current_message := Some 7,
        current := Some (track ''B''), playing := True\<rparr>))"
  "on_wavelink_track_end (Some (CustomPlayer_init\<lparr>history := [track ''A''],
        current_message := Some 7, current := Some (track ''B''), playing := True\<rparr>)) 1 Edited =
     (Returned, [EditDisconnected 7, Disconnect], Some CustomPlayer_init)"
  by (simp_all add: CustomPlayer_init_def play_def skip_button_def on_wavelink_track_end_def
      with_player_def play_next_track_from_custom_queue_def dequeue_and_play_def
      disconnect_and_clean_up_def update_now_playing_message_def history_append_def
      add_to_custom_queue_def wl_play_def wl_disconnect_def Let_def)

section \<open>The claims\<close>

text \<open>
  C1. For every player, a track end with reason 1 (stopped: an explicit stop or skip)
  runs \<open>play_next_track_from_custom_queue\<close> only when the queue holds a track. With
  an empty queue it runs \<open>disconnect_and_clean_up\<close> whatever the loop mode and the
  history are: the queue, the history and the loop mode are reset and no track is
  played. A track end with reason 0 (finished) always runs the whole transition, the
  loop-queue branch included: with loop mode 2, an empty queue and a history, it plays
  the oldest entry of the history and does not disconnect.
\<close>

theorem track_stopped_gate:
  "(custom_queue s = [] \<longrightarrow>
      on_wavelink_track_end (Some s) 1 r = with_player (disconnect_and_clean_up s r)) \<and>
   (custom_queue s \<noteq> [] \<longrightarrow>
      on_wavelink_track_end (Some s) 1 r = with_player (play_next_track_from_custom_queue s r)) \<and>
   on_wavelink_track_end (Some s) 0 r = with_player (play_next_track_from_custom_queue s r) \<and>
   (custom_queue s = [] \<longrightarrow>
      (\<exists>st es s'. on_wavelink_track_end (Some s) 1 r = (st, es, Some s') \<and>
         custom_queue s' = [] \<and> history s' = [] \<and> loop_mode s' = 0 \<and>
         (\<forall>t. Play t \<notin> set es) \<and>
         (st = Returned \<longrightarrow> Disconnect \<in> set es \<and> current_message s' = None))) \<and>
   (custom_queue s = [] \<and> loop_mode s = 2 \<and> history s \<noteq> [] \<longrightarrow>
      (\<exists>es s'. on_wavelink_track_end (Some s) 0 r = (Returned, Play (hd (history s)) # es, Some s') \<and>
         Disconnect \<notin> set es \<and> current s' = Some (hd (history s))))"
proof -
  have stopped: "custom_queue s = [] \<longrightarrow>
      (\<exists>st es s'. on_wavelink_track_end (Some s) 1 r = (st, es, Some s') \<and>
         custom_queue s' = [] \<and> history s' = [] \<and> loop_mode s' = 0 \<and>
         (\<forall>t. Play t \<notin> set es) \<and>
         (st = Returned \<longrightarrow> Disconnect \<in> set es \<and> current_message s' = None))"
    by (auto simp: on_wavelink_track_end_def with_player_def disconnect_and_clean_up_def
        wl_disconnect_def Let_def split: option.splits edit_outcome.splits)
  have finished: "custom_queue s = [] \<and> loop_mode s = 2 \<and> history s \<noteq> [] \<longrightarrow>
      (\<exists>es s'. on_wavelink_track_end (Some s) 0 r = (Returned, Play (hd (history s)) # es, Some s') \<and>
         Disconnect \<notin> set es \<and> current s' = Some (hd (history s)))"
  proof (cases "history s")
    case Nil
    then show ?thesis by simp
  next
    case (Cons a rest)
    show ?thesis
    proof (intro impI)
      assume "custom_queue s = [] \<and> loop_mode s = 2 \<and> history s \<noteq> []"
      then have "loop_mode s = 2" "custom_queue s = []" by simp_all
      from finished_loop_queue [OF this Cons, of r] show "\<exists>es s'.
          on_wavelink_track_end (Some s) 0 r = (Returned, Play (hd (history s)) # es, Some s') \<and>
          Disconnect \<notin> set es \<and> current s' = Some (hd (history s))"
        using Cons by auto
    qed
  qed
  have "on_wavelink_track_end (Some s) 0 r = with_player (play_next_track_from_custom_queue s r)"
    "custom_queue s = [] \<longrightarrow>
      on_wavelink_track_end (Some s) 1 r = with_player (disconnect_and_clean_up s r)"
    "custom_queue s \<noteq> [] \<longrightarrow>
      on_wavelink_track_end (Some s) 1 r = with_player (play_next_track_from_custom_queue s r)"
    by (simp_all add: on_wavelink_track_end_def)
  with stopped finished show ?thesis by blast
qed

theorem track_stopped_gate_witness:
  "on_wavelink_track_end (Some looping_session) 1 Edited =
     (Returned, [EditDisconnected 7, Disconnect],
      Some \<lparr>custom_queue = [], history = [], loop_mode = 0, current_message = None,
            current = None, playing = False, paused = False, volume = 100\<rparr>) \<and>
   on_wavelink_track_end (Some looping_session) 0 Edited =
     (Returned, [Play (track ''A''), EditNowPlaying 7 (track ''A'')],
      Some \<lparr>custom_queue = [track ''B''], history = [track ''C''], loop_mode = 2,
            current_message = Some 7, current = Some (track ''A''), playing = True,
            paused = False, volume = 100\<rparr>)"
  using track_stopped_gate [of looping_session Edited]
  by (simp add: looping_session_def with_player_def disconnect_and_clean_up_def
      play_next_track_from_custom_queue_def dequeue_and_play_def requeue_history_def
      update_now_playing_message_def history_append_def wl_play_def wl_disconnect_def)

text \<open>
  C2. For every player with loop mode 2 (queue), an empty queue and a history
  \<open>a # rest\<close>, on a finished track the whole history is put on the queue in its order,
  oldest first, and the history is cleared by that; then the head of the queue is
  taken: \<open>a\<close> becomes the current track and the queue is \<open>rest\<close>. After the drain the
  history holds only the track that was current, if there was one. With the history
  \<open>[A, B]\<close>, \<open>A\<close> becomes current and the queue is \<open>[B]\<close>.
\<close>

theorem loop_queue_drain:
  assumes "loop_mode s = 2" and "custom_queue s = []" and "history s = a # rest"
  shows "custom_queue (requeue_history s) = a # rest \<and>
         history (requeue_history s) = [] \<and>
         on_wavelink_track_end (Some s) 0 r = with_player (dequeue_and_play (requeue_history s) r) \<and>
         (\<exists>es s'. on_wavelink_track_end (Some s) 0 r = (Returned, Play a # es, Some s') \<and>
            current s' = Some a \<and> custom_queue s' = rest \<and>
            history s' = (case current s of None \<Rightarrow> [] | Some c \<Rightarrow> [c]))"
proof -
  have "custom_queue (requeue_history s) = a # rest" "history (requeue_history s) = []"
    using assms by (simp_all add: requeue_history_def requeue_fold)
  moreover have "on_wavelink_track_end (Some s) 0 r =
      with_player (dequeue_and_play (requeue_history s) r)"
    using assms by (simp add: on_wavelink_track_end_def play_next_track_from_custom_queue_def)
  moreover from finished_loop_queue [OF assms, of r]
  have "\<exists>es s'. on_wavelink_track_end (Some s) 0 r = (Returned, Play a # es, Some s') \<and>
            current s' = Some a \<and> custom_queue s' = rest \<and>
            history s' = (case current s of None \<Rightarrow> [] | Some c \<Rightarrow> [c])"
    by blast
  ultimately show ?thesis by (intro conjI)
qed

theorem loop_queue_drain_witness:
  "on_wavelink_track_end (Some looping_session) 0 NotFound =
     (Returned, [Play (track ''A''), EditNowPlaying 7 (track ''A'')],
      Some \<lparr>custom_queue = [track ''B''], history = [track ''C''], loop_mode = 2,
            current_message = None, current = Some (track ''A''), playing = True,
            paused = False, volume = 100\<rparr>) \<and>
   custom_queue (requeue_history looping_session) = [track ''A'', track ''B''] \<and>
   history (requeue_history looping_session) = []"
  using loop_queue_drain [of looping_session "track ''A''" "[track ''B'']" NotFound]
  by (simp add: looping_session_def with_player_def dequeue_and_play_def requeue_history_def
      update_now_playing_message_def history_append_def wl_play_def)

text \<open>
  C3. For every player with loop mode 1 (song) and a current track \<open>c\<close>, a finished
  track replays \<open>c\<close>: the player is told to play \<open>c\<close> and nothing else, \<open>c\<close> is still
  the current track, and the history and the queue are as before; \<open>c\<close> is not put in
  the history.
\<close>

theorem loop_song_replay:
  assumes "loop_mode s = 1" and "current s = Some c"
  shows "\<exists>es s'. on_wavelink_track_end (Some s) 0 r = (Returned, Play c # es, Some s') \<and>
           (\<forall>t. Play t \<notin> set es) \<and>
           current s' = Some c \<and> history s' = history s \<and> custom_queue s' = custom_queue s \<and>
           loop_mode s' = 1"
proof -
  obtain es s2 where u: "update_now_playing_message (wl_play c s) r = (es, s2)"
    by (cases "update_now_playing_message (wl_play c s) r")
  have "\<forall>t. Play t \<notin> set es"
    using update_effects(1) [of _ "wl_play c s" r] u by simp
  moreover have "current s2 = Some c" "history s2 = history s"
    "custom_queue s2 = custom_queue s" "loop_mode s2 = 1"
    using update_fields [of "wl_play c s" r] u assms by (simp_all add: wl_play_def)
  moreover have "on_wavelink_track_end (Some s) 0 r = (Returned, Play c # es, Some s2)"
    using assms u
    by (simp add: on_wavelink_track_end_def play_next_track_from_custom_queue_def with_player_def)
  ultimately show ?thesis by blast
qed

theorem loop_song_replay_witness:
  "on_wavelink_track_end (Some song_session) 0 Edited =
     (Returned, [Play (track ''A''), EditNowPlaying 7 (track ''A'')], Some song_session)"
  using loop_song_replay [of song_session "track ''A''" Edited]
  by (simp add: song_session_def on_wavelink_track_end_def with_player_def Let_def
      play_next_track_from_custom_queue_def update_now_playing_message_def wl_play_def)

text \<open>
  C4. The previous button replies "No previous song in history." exactly when the
  history is empty, and then leaves the player as it was. Otherwise it takes the last
  entry off the history, which gets shorter by exactly one; the track that was
  current, if any, becomes the front of the queue with the old queue behind it in
  order; and the entry taken becomes the current track, which the player is told to
  play.
\<close>

theorem previous_pops_history:
  "(history s = [] \<longrightarrow> previous_button (Some s) r = (Returned, [Send NoPrevious], Some s)) \<and>
   (history s \<noteq> [] \<longrightarrow>
      (\<exists>es s'. previous_button (Some s) r =
           (Returned,
            Play (last (history s)) # Send (PlayingPrevious (last (history s))) # es, Some s') \<and>
         Send NoPrevious \<notin> set es \<and>
         history s' = butlast (history s) \<and>
         Suc (length (history s')) = length (history s) \<and>
         current s' = Some (last (history s)) \<and>
         custom_queue s' =
           (case current s of None \<Rightarrow> custom_queue s | Some c \<Rightarrow> c # custom_queue s)))"
proof (cases "history s = []")
  case True
  then show ?thesis by (simp add: previous_button_def)
next
  case False
  define s2 where "s2 = (case current s of
      None \<Rightarrow> s\<lparr>history := butlast (history s)\<rparr>
    | Some c \<Rightarrow> s\<lparr>history := butlast (history s), custom_queue := c # custom_queue s\<rparr>)"
  obtain es s4 where u: "update_now_playing_message (wl_play (last (history s)) s2) r = (es, s4)"
    by (cases "update_now_playing_message (wl_play (last (history s)) s2) r")
  have "Send NoPrevious \<notin> set es"
    using u by (auto simp: update_now_playing_message_def split: option.splits edit_outcome.splits)
  moreover have "history s4 = butlast (history s)" "current s4 = Some (last (history s))"
    "custom_queue s4 = (case current s of None \<Rightarrow> custom_queue s | Some c \<Rightarrow> c # custom_queue s)"
    using update_fields [of "wl_play (last (history s)) s2" r] u
    by (simp_all add: wl_play_def s2_def split: option.splits)
  moreover have "previous_button (Some s) r =
      (Returned, Play (last (history s)) # Send (PlayingPrevious (last (history s))) # es, Some s4)"
    using False u
    by (simp add: previous_button_def Let_def move_all_append s2_def split: option.splits)
  moreover have "Suc (length (butlast (history s))) = length (history s)"
    using False by simp
  ultimately show ?thesis using False by auto
qed

theorem previous_pops_history_witness:
  "previous_button (Some history_session) Edited =
     (Returned, [Play (track ''B''), Send (PlayingPrevious (track ''B''))],
      Some \<lparr>custom_queue = [track ''C'', track ''D'', track ''E''], history = [track ''A''],
            loop_mode = 0, current_message = None, current = Some (track ''B''), playing = True,
            paused = False, volume = 100\<rparr>) \<and>
   previous_button (Some CustomPlayer_init) Edited =
     (Returned, [Send NoPrevious], Some CustomPlayer_init)"
  using previous_pops_history [of history_session Edited]
    previous_pops_history [of CustomPlayer_init Edited]
  by (simp add: history_session_def CustomPlayer_init_def previous_button_def Let_def
      update_now_playing_message_def wl_play_def)

text \<open>
  C5. Every reachable player has at most ten entries in its history. Appending to a
  history of ten entries drops the oldest one, appending to a shorter one drops
  nothing, and after appending tracks 1 to 15 in order the history holds exactly
  tracks 6 to 15 in order.
\<close>

theorem history_capped:
  "(reachable s \<longrightarrow> length (history s) \<le> 10) \<and>
   (length h = 10 \<longrightarrow> history_append h t = tl h @ [t]) \<and>
   (length h < 10 \<longrightarrow> history_append h t = h @ [t]) \<and>
   foldl history_append [] (map f [1..<16]) = map f [6..<16]"
proof -
  have "length h = 10 \<longrightarrow> history_append h t = tl h @ [t]"
    by (cases h) (simp_all add: history_append_def)
  moreover have "length h < 10 \<longrightarrow> history_append h t = h @ [t]"
    by (simp add: history_append_def)
  ultimately show ?thesis
    using reachable_history_bound [of s] fifteen_appends [of f] by blast
qed

theorem history_capped_witness:
  "reachable playlist_played \<and> length (history playlist_played) \<le> 10 \<and>
   history playlist_played = map numbered [6..<16] \<and>
   length (map numbered [1..<11]) = 10 \<and>
   history_append (map numbered [1..<11]) (numbered 11) = map numbered [2..<12] \<and>
   length (map numbered [1..<3]) < 10 \<and>
   history_append (map numbered [1..<3]) (numbered 3) = map numbered [1..<4]"
proof -
  have r: "reachable playlist_played"
    using playlist_reachable playlist_fifteen by (rule finished_events_reachable)
  have "history playlist_played = map numbered [6..<16]"
    by (simp add: playlist_played_def)
  moreover have "tl (map numbered [1..<11]) @ [numbered 11] = map numbered [2..<12]"
    "map numbered [1..<3] @ [numbered 3] = map numbered [1..<4]"
    by (simp_all add: upt_rec eval_nat_numeral)
  ultimately show ?thesis
    using r history_capped [of playlist_played "map numbered [1..<11]" "numbered 11" numbered]
      history_capped [of playlist_played "map numbered [1..<3]" "numbered 3" numbered]
    by simp
qed

text \<open>
  C6. Every \<open>play\<close> command that has found a track \<open>t\<close> either starts it or queues
  it. When the player reports that nothing is playing, \<open>t\<close> becomes the current
  track and the player is told to play it; when something is playing, \<open>t\<close> is put at
  the tail of the queue and nothing else changes. A player connected by the command
  itself starts \<open>t\<close>. No branch drops \<open>t\<close>.
\<close>

theorem play_starts_or_enqueues:
  "(\<not> playing vc \<longrightarrow>
      play (Some vc) u (t # others) msg =
        (Returned,
         [Play t, Send (NowPlaying t)] @ (if custom_queue vc \<noteq> [] then [CreateTask] else []),
         Some (vc\<lparr>current := Some t, playing := True, current_message := Some msg\<rparr>))) \<and>
   (playing vc \<longrightarrow>
      play (Some vc) u (t # others) msg =
        (Returned, [Send (AddedToQueue t)], Some (vc\<lparr>custom_queue := custom_queue vc @ [t]\<rparr>))) \<and>
   play None True (t # others) msg =
     (Returned, [Play t, Send (NowPlaying t)],
      Some (CustomPlayer_init\<lparr>current := Some t, playing := True, current_message := Some msg\<rparr>))"
  by (simp add: play_def wl_play_def add_to_custom_queue_def CustomPlayer_init_def)

theorem play_starts_or_enqueues_witness:
  "play (Some CustomPlayer_init) True [track ''A'', track ''A2''] 7 =
     (Returned, [Play (track ''A''), Send (NowPlaying (track ''A''))],
      Some \<lparr>custom_queue = [], history = [], loop_mode = 0, current_message = Some 7,
            current = Some (track ''A''), playing = True, paused = False, volume = 100\<rparr>) \<and>
   play (Some song_session) True [track ''C''] 8 =
     (Returned, [Send (AddedToQueue (track ''C''))],
      Some \<lparr>custom_queue = [track ''B'', track ''C''], history = [track ''Z''], loop_mode = 1,
            current_message = Some 7, current = Some (track ''A''), playing = True,
            paused = False, volume = 100\<rparr>)"
  using play_starts_or_enqueues [of CustomPlayer_init True "track ''A''" "[track ''A2'']" 7]
    play_starts_or_enqueues [of song_session True "track ''C''" "[]" 8]
  by (simp add: CustomPlayer_init_def song_session_def)

text \<open>
  When \<open>play\<close> starts a track while others wait in the queue, the task it schedules
  plays the head of the queue at once; the track just started is then the newest entry
  of the history.
\<close>

lemma superseded_track_is_kept:
  assumes "\<not> playing vc" and "custom_queue vc = b # rest" and "loop_mode vc \<noteq> 1"
    and "play (Some vc) u (t # others) msg = (st, es, Some s1)"
  shows "\<exists>es' s2. play_next_track_from_custom_queue s1 r = (Returned, Play b # es', s2) \<and>
           current s2 = Some b \<and> last (history s2) = t \<and> history s2 \<noteq> []"
proof -
  from assms have s1: "s1 = vc\<lparr>current := Some t, playing := True, current_message := Some msg\<rparr>"
    by (simp add: play_def wl_play_def)
  have q: "custom_queue s1 = b # rest" using assms(2) s1 by simp
  have "play_next_track_from_custom_queue s1 r = dequeue_and_play s1 r"
    using assms(3) q s1 by (simp add: play_next_track_from_custom_queue_def)
  then show ?thesis
    unfolding dequeue_and_play_Cons [OF q]
    by (simp add: s1 update_fields wl_play_def history_append_last)
qed

text \<open>
  C7, as the claim states it, fails: "skip fails with NothingPlaying exactly when
  \<open>current\<close> is absent". With no current track, a track waiting in the queue and a
  player that reports a pause, the skip button tells the player to stop and replies
  "Skipped song!".
\<close>

theorem skip_with_no_current_counterexample:
  "current stalled_session = None \<and>
   skip_button (Some stalled_session) = (Returned, [Stop, Send Skipped], Some stalled_session)"
  by (simp add: stalled_session_def skip_button_def)

text \<open>
  C7, amended. The skip button tells the player to stop exactly when its first guard
  does not hold (a current track, or a non-empty queue, or loop mode 2) and the player
  reports playing or paused; it then replies "Skipped song!". In every other case it
  only sends a reply, "No more songs in the queue to skip to." or "No music playing to
  skip.". In no case does the button change the player: queue, history, current track
  and loop mode change only when the track-end event arrives. When the player reports
  playing exactly when a track is loaded, and a pause only with a track loaded, the
  button fails exactly when \<open>current\<close> is absent.
\<close>

theorem skip_guard:
  "(Stop \<in> set (effects (skip_button (Some s))) \<longleftrightarrow>
      \<not> (current s = None \<and> custom_queue s = [] \<and> loop_mode s \<noteq> 2) \<and> (playing s \<or> paused s)) \<and>
   (Stop \<in> set (effects (skip_button (Some s))) \<longrightarrow>
      skip_button (Some s) = (Returned, [Stop, Send Skipped], Some s)) \<and>
   (Stop \<notin> set (effects (skip_button (Some s))) \<longrightarrow>
      skip_button (Some s) = (Returned, [Send NoMoreSongs], Some s) \<or>
      skip_button (Some s) = (Returned, [Send NothingToSkip], Some s)) \<and>
   player_after (skip_button (Some s)) = Some s \<and>
   ((playing s \<longleftrightarrow> current s \<noteq> None) \<and> (paused s \<longrightarrow> current s \<noteq> None) \<longrightarrow>
      (Stop \<notin> set (effects (skip_button (Some s))) \<longleftrightarrow> current s = None))"
  by (auto simp: skip_button_def effects_def player_after_def)

theorem skip_guard_witness:
  "skip_button (Some song_session) = (Returned, [Stop, Send Skipped], Some song_session) \<and>
   skip_button (Some CustomPlayer_init) = (Returned, [Send NoMoreSongs], Some CustomPlayer_init) \<and>
   Stop \<in> set (effects (skip_button (Some song_session))) \<and>
   Stop \<notin> set (effects (skip_button (Some CustomPlayer_init))) \<and>
   current CustomPlayer_init = None \<and> current song_session \<noteq> None"
  using skip_guard [of song_session] skip_guard [of CustomPlayer_init]
  by (simp add: song_session_def CustomPlayer_init_def skip_button_def effects_def)

text \<open>
  C8. \<open>disconnect_and_clean_up\<close> is to leave the player with an empty queue, an empty
  history, loop mode 0 and no stored message. It does not when the player has a stored
  message and editing it raises an exception other than \<open>discord.NotFound\<close>: the
  method catches only \<open>NotFound\<close>, so the exception leaves it with the message still
  stored and the voice connection still open. The stop button fails the same way.
  \<open>update_now_playing_message\<close>, on the same edit, catches every exception.
\<close>

theorem shutdown_edit_failure:
  "disconnect_and_clean_up announced_session EditFailed =
     (Raised, [EditDisconnected 7],
      \<lparr>custom_queue = [], history = [], loop_mode = 0, current_message = Some 7,
       current = Some (track ''A''), playing = True, paused = False, volume = 100\<rparr>) \<and>
   stop_button (Some announced_session) EditFailed =
     (Raised, [EditDisconnected 7],
      Some \<lparr>custom_queue = [], history = [], loop_mode = 0, current_message = Some 7,
       current = Some (track ''A''), playing = True, paused = False, volume = 100\<rparr>) \<and>
   update_now_playing_message announced_session EditFailed =
     ([EditNowPlaying 7 (track ''A''), PrintError], announced_session)"
  by (simp add: announced_session_def disconnect_and_clean_up_def stop_button_def
      update_now_playing_message_def)

text \<open>
  When the edit returns or raises \<open>NotFound\<close>, or when no message is stored, the
  method returns, the four fields are reset, the player is told to disconnect, and a
  second call changes nothing.
\<close>

lemma shutdown_terminal:
  assumes "r \<noteq> EditFailed \<or> current_message s = None"
    and "disconnect_and_clean_up s r = (st, es, s')"
  shows "st = Returned" and "custom_queue s' = []" and "history s' = []" and "loop_mode s' = 0"
    and "current_message s' = None" and "Disconnect \<in> set es"
    and "\<exists>es2. disconnect_and_clean_up s' r2 = (Returned, es2, s')"
  using assms
  by (auto simp: disconnect_and_clean_up_def wl_disconnect_def Let_def
      split: option.splits edit_outcome.splits)

text \<open>
  C9. For every volume \<open>v\<close>, the volume-up button sets the volume to
  \<open>min 1000 (v + 100)\<close> and the volume-down button sets it to \<open>max 0 (v - 100)\<close>. From a
  volume between 0 and 1000 both stay between 0 and 1000; from 950 up gives 1000 and
  from 50 down gives 0.
\<close>

theorem volume_clamped:
  "vol_up_button (Some s) =
     (Returned,
      [SetVolume (min 1000 (volume s + 100)), Send (VolumeSet (min 1000 (volume s + 100) div 10))],
      Some (s\<lparr>volume := min 1000 (volume s + 100)\<rparr>)) \<and>
   vol_down_button (Some s) =
     (Returned,
      [SetVolume (max 0 (volume s - 100)), Send (VolumeSet (max 0 (volume s - 100) div 10))],
      Some (s\<lparr>volume := max 0 (volume s - 100)\<rparr>)) \<and>
   (0 \<le> volume s \<and> volume s \<le> 1000 \<longrightarrow>
      (\<exists>up down. player_after (vol_up_button (Some s)) = Some up \<and>
         player_after (vol_down_button (Some s)) = Some down \<and>
         0 \<le> volume up \<and> volume up \<le> 1000 \<and> 0 \<le> volume down \<and> volume down \<le> 1000)) \<and>
   (volume s = 950 \<longrightarrow> player_after (vol_up_button (Some s)) = Some (s\<lparr>volume := 1000\<rparr>)) \<and>
   (volume s = 50 \<longrightarrow> player_after (vol_down_button (Some s)) = Some (s\<lparr>volume := 0\<rparr>))"
  by (simp add: vol_up_button_def vol_down_button_def wl_set_volume_def player_after_def Let_def)

theorem volume_clamped_witness:
  "player_after (vol_up_button (Some (CustomPlayer_init\<lparr>volume := 950\<rparr>))) =
     Some (CustomPlayer_init\<lparr>volume := 1000\<rparr>) \<and>
   player_after (vol_down_button (Some (CustomPlayer_init\<lparr>volume := 50\<rparr>))) =
     Some (CustomPlayer_init\<lparr>volume := 0\<rparr>) \<and>
   player_after (vol_up_button (Some (CustomPlayer_init\<lparr>volume := 300\<rparr>))) =
     Some (CustomPlayer_init\<lparr>volume := 400\<rparr>)"
  using volume_clamped [of "CustomPlayer_init\<lparr>volume := 950\<rparr>"]
    volume_clamped [of "CustomPlayer_init\<lparr>volume := 50\<rparr>"]
    volume_clamped [of "CustomPlayer_init\<lparr>volume := 300\<rparr>"]
  by (simp add: player_after_def)

text \<open>
  C10. For every player, a track end whose reason is neither 0 (finished) nor 1
  (stopped) is ignored: the handler returns, asks nothing of the player, and leaves
  queue, history, current track and loop mode as they were.
\<close>

theorem other_reason_ignored:
  "reason \<noteq> 0 \<Longrightarrow> reason \<noteq> 1 \<Longrightarrow> on_wavelink_track_end p reason r = (Returned, [], p)"
  by (simp add: on_wavelink_track_end_def split: option.splits)

theorem other_reason_ignored_witness:
  "on_wavelink_track_end (Some song_session) 2 Edited = (Returned, [], Some song_session) \<and>
   on_wavelink_track_end (Some looping_session) (- 1) EditFailed =
     (Returned, [], Some looping_session)"
  using other_reason_ignored [of 2 "Some song_session" Edited]
    other_reason_ignored [of "- 1" "Some looping_session" EditFailed]
  by simp

end
